theory Spec2Isabelle
  imports Main
begin

section \<open>Exceptions\<close>

text \<open>
  The exceptions that can leave the functions of \<^verbatim>\<open>xpublish/rest.py\<close>.
  \<open>KeyError\<close>, \<open>ValueError\<close> and \<open>IndexError\<close> come from the Python operations the
  source performs itself (a lookup by name, \<^verbatim>\<open>int(...)\<close>, \<^verbatim>\<open>c[0]\<close>); \<open>AttributeError\<close>
  is what the lookup \<^verbatim>\<open>self._obj[var]\<close> of xarray raises for some names, next to
  \<open>KeyError\<close>; \<open>RuntimeError\<close> is the one \<^verbatim>\<open>raise\<close> statement of the file (in
  \<^verbatim>\<open>_encode_chunk\<close>); \<open>External m\<close> is an exception raised inside a codec's
  \<^verbatim>\<open>encode\<close> or inside the array engine, kept apart from the others so that the place of
  a failure stays visible. The specification
  names three of them by their role: \<^verbatim>\<open>MalformedCoordinate\<close> is the \<open>ValueError\<close> of
  \<^verbatim>\<open>get_indexers\<close>, \<^verbatim>\<open>UnknownVariable\<close> the \<open>KeyError\<close> of the chunk route, and
  \<^verbatim>\<open>UnencodableElementKind\<close> the \<open>RuntimeError\<close>.
\<close>

datatype error =
  KeyError | ValueError | IndexError | AttributeError | RuntimeError | External string

section \<open>Coordinate resolution\<close>

subsection \<open>\<^verbatim>\<open>str.split\<close> and \<^verbatim>\<open>int\<close>\<close>

text \<open>
  \<^verbatim>\<open>key.split(".")\<close>: the pieces of the string between the separators; a string without
  separator (also the empty one) gives a single piece.
\<close>

fun str_split :: "char \<Rightarrow> string \<Rightarrow> string list" where
  "str_split sep [] = [[]]"
| "str_split sep (c # cs) =
     (if c = sep then [] # str_split sep cs
      else (case str_split sep cs of
              [] \<Rightarrow> [[c]]
            | t # ts \<Rightarrow> (c # t) # ts))"

text \<open>
  \<^verbatim>\<open>int(s)\<close> on a string, base ten, as CPython reads it. A character of the model is a
  byte, and a Python string is its UTF-8 encoding: a byte below 128 is an ASCII character.

  On an ASCII string, blanks are skipped on both sides, one sign may follow, then come
  decimal digits, where a single underscore may stand between two digits; anything else
  raises \<^verbatim>\<open>ValueError\<close> (the value \<open>None\<close> here). CPython also raises \<^verbatim>\<open>ValueError\<close>
  when the string has more digits than \<^verbatim>\<open>sys.get_int_max_str_digits()\<close>, which is 4300
  unless the interpreter is configured otherwise; 0 switches the limit off, and the
  interpreters before the limit was introduced behave like 0.

  On a string with a character beyond ASCII, CPython consults the Unicode database: the
  blanks and the decimal digits of every script are accepted. The database is not part of
  the repository, so what \<^verbatim>\<open>int\<close> returns for such a string is a parameter.
\<close>

record interpreter =
  max_str_digits :: nat
  int_non_ascii :: "string \<Rightarrow> int option"

definition is_ascii :: "string \<Rightarrow> bool" where
  "is_ascii s \<longleftrightarrow> list_all (\<lambda>c. (of_char c :: nat) < 128) s"

definition is_space :: "char \<Rightarrow> bool" where
  "is_space c \<longleftrightarrow> c = CHR '' '' \<or> (9 \<le> (of_char c :: nat) \<and> (of_char c :: nat) \<le> 13)"

definition is_digit :: "char \<Rightarrow> bool" where
  "is_digit c \<longleftrightarrow> 48 \<le> (of_char c :: nat) \<and> (of_char c :: nat) \<le> 57"

definition digit_value :: "char \<Rightarrow> int" where
  "digit_value c = int (of_char c) - 48"

definition strip :: "string \<Rightarrow> string" where
  "strip s = rev (dropWhile is_space (rev (dropWhile is_space s)))"

fun digits_value :: "int \<Rightarrow> string \<Rightarrow> int option" where
  "digits_value acc [] = Some acc"
| "digits_value acc [c] =
     (if is_digit c then Some (10 * acc + digit_value c) else None)"
| "digits_value acc (c # d # ds) =
     (if is_digit c then digits_value (10 * acc + digit_value c) (d # ds)
      else if c = CHR ''_'' \<and> is_digit d then digits_value (10 * acc + digit_value d) ds
      else None)"

definition unsigned_value :: "string \<Rightarrow> int option" where
  "unsigned_value s =
     (case s of
        [] \<Rightarrow> None
      | d # ds \<Rightarrow> if is_digit d then digits_value (digit_value d) ds else None)"

definition exceeds_limit :: "interpreter \<Rightarrow> string \<Rightarrow> bool" where
  "exceeds_limit py s \<longleftrightarrow>
     0 < max_str_digits py \<and> max_str_digits py < length (filter is_digit s)"

definition py_int :: "interpreter \<Rightarrow> string \<Rightarrow> int option" where
  "py_int py s =
     (if \<not> is_ascii s then int_non_ascii py s
      else if exceeds_limit py s then None
      else (case strip s of
              [] \<Rightarrow> None
            | c # cs \<Rightarrow>
                if c = CHR ''-'' then map_option uminus (unsigned_value cs)
                else if c = CHR ''+'' then unsigned_value cs
                else unsigned_value (c # cs)))"

subsection \<open>\<^verbatim>\<open>slice_axis\<close> and \<^verbatim>\<open>get_indexers\<close>\<close>

text \<open>A Python \<^verbatim>\<open>slice(start, stop)\<close>: the half-open range from \<open>start\<close> to \<open>stop\<close>.\<close>

datatype slice = Slice (start: int) (stop: int)

definition slice_axis :: "int \<Rightarrow> int \<Rightarrow> slice" where
  "slice_axis key chunk_size = Slice (key * chunk_size) ((key + 1) * chunk_size)"

text \<open>
  The generator over \<^verbatim>\<open>zip(ikeys, chunks)\<close> that \<^verbatim>\<open>tuple\<close> consumes: it stops with the
  shorter of the two sequences, and \<^verbatim>\<open>int(i)\<close> runs on the tokens that \<^verbatim>\<open>zip\<close> pairs,
  from left to right.
\<close>

fun indexers_zip :: "interpreter \<Rightarrow> string list \<Rightarrow> int list \<Rightarrow> error + slice list" where
  "indexers_zip py (i # ikeys) (c # chunks) =
     (case py_int py i of
        None \<Rightarrow> Inl ValueError
      | Some k \<Rightarrow>
          (case indexers_zip py ikeys chunks of
             Inl e \<Rightarrow> Inl e
           | Inr rest \<Rightarrow> Inr (slice_axis k c # rest)))"
| "indexers_zip py _ _ = Inr []"

definition get_indexers :: "interpreter \<Rightarrow> string \<Rightarrow> int list \<Rightarrow> error + slice list" where
  "get_indexers py key chunks = indexers_zip py (str_split CHR ''.'' key) chunks"

subsection \<open>Writing a coordinate string\<close>

text \<open>
  The decimal numeral of a natural number, as \<^verbatim>\<open>str(n)\<close> writes it, and
  \<^verbatim>\<open>".".join(tokens)\<close>: the coordinate string \<^verbatim>\<open>i0.i1.\<dots>\<close> of the coordinates
  \<open>i0, i1, \<dots>\<close> is \<open>dot_join (map decimal [i0, i1, \<dots>])\<close>. Neither is part of the source;
  they say which text stands for which integers.
\<close>

definition digit_char :: "nat \<Rightarrow> char" where
  "digit_char d = char_of (48 + d)"

fun decimal :: "nat \<Rightarrow> string" where
  "decimal n = (if n < 10 then [digit_char n] else decimal (n div 10) @ [digit_char (n mod 10)])"

declare decimal.simps [simp del]

fun dot_join :: "string list \<Rightarrow> string" where
  "dot_join [] = []"
| "dot_join [t] = t"
| "dot_join (t # u # ts) = t @ ''.'' @ dot_join (u # ts)"

section \<open>Metadata extraction\<close>

subsection \<open>The data source\<close>

text \<open>
  Values as they appear in the JSON records: \<^verbatim>\<open>None\<close>, integers, strings and lists.
\<close>

datatype pyval = PNone | PInt int | PStr string | PList "pyval list"

text \<open>
  An encoding dictionary, reduced to the three keys the source reads with \<^verbatim>\<open>.get\<close>.
  For \<^verbatim>\<open>compressor\<close> and \<^verbatim>\<open>filters\<close> the outer \<open>None\<close> is a missing key and
  \<open>Some None\<close> is a key bound to \<^verbatim>\<open>None\<close>: \<^verbatim>\<open>d.get(k, default)\<close> tells them apart.
  For \<^verbatim>\<open>chunks\<close> the source calls \<^verbatim>\<open>encoding.get("chunks", None)\<close>, which gives
  \<^verbatim>\<open>None\<close> in both cases, so one \<open>option\<close> is enough. A codec has the type \<open>'c\<close>.
\<close>

record 'c encoding_dict =
  enc_compressor :: "'c option option"
  enc_filters :: "'c list option option"
  enc_chunks :: "int list option"

definition empty_encoding :: "'c encoding_dict" where
  "empty_encoding = \<lparr>enc_compressor = None, enc_filters = None, enc_chunks = None\<rparr>"

text \<open>
  What the source reads of an xarray variable \<^verbatim>\<open>da\<close>: \<^verbatim>\<open>da.attrs.items()\<close>,
  \<^verbatim>\<open>da.dims\<close>, \<^verbatim>\<open>da.shape\<close>, \<^verbatim>\<open>da.chunks\<close> (\<^verbatim>\<open>None\<close>, or for each dimension the
  tuple of its block sizes), \<^verbatim>\<open>da.dtype.str\<close>, \<^verbatim>\<open>da.encoding\<close> and \<^verbatim>\<open>da.data\<close>.
\<close>

record ('v, 'c, 'd) variable =
  da_attrs :: "(string \<times> 'v) list"
  da_dims :: "string list"
  da_shape :: "int list"
  da_chunks :: "int list list option"
  da_dtype_str :: string
  da_encoding :: "'c encoding_dict"
  da_data :: 'd

record ('v, 'c, 'd) dataset =
  ds_variables :: "(string \<times> ('v, 'c, 'd) variable) list"
  ds_attrs :: "(string \<times> 'v) list"

subsection \<open>Constants\<close>

definition zarr_format :: int where
  "zarr_format = 2"

definition zarr_consolidated_format :: int where
  "zarr_consolidated_format = 1"

definition zarr_metadata_key :: string where
  "zarr_metadata_key = ''.zmetadata''"

text \<open>
  The keys imported from \<^verbatim>\<open>zarr.storage\<close> and \<^verbatim>\<open>xarray.backends.zarr\<close>.
\<close>

definition array_meta_key :: string where
  "array_meta_key = ''.zarray''"

definition attrs_key :: string where
  "attrs_key = ''.zattrs''"

definition group_meta_key :: string where
  "group_meta_key = ''.zgroup''"

definition DIMENSION_KEY :: string where
  "DIMENSION_KEY = ''_ARRAY_DIMENSIONS''"

subsection \<open>\<^verbatim>\<open>extract_zattrs\<close>\<close>

text \<open>
  The loop \<^verbatim>\<open>for k, v in attrs.items(): zattrs[k] = _encode_zarr_attr_value(v)\<close>, which
  \<^verbatim>\<open>extract_zattrs\<close> and \<^verbatim>\<open>RestAccessor.get_zattrs\<close> share; \<open>zattrs\<close> is the dictionary
  built so far. The encoder is xarray's and is the parameter \<open>encode_attr\<close>.
\<close>

fun encode_attrs ::
  "('v \<Rightarrow> pyval) \<Rightarrow> (string \<times> 'v) list \<Rightarrow> (string \<rightharpoonup> pyval) \<Rightarrow> (string \<rightharpoonup> pyval)" where
  "encode_attrs encode_attr [] zattrs = zattrs"
| "encode_attrs encode_attr ((k, v) # items) zattrs =
     encode_attrs encode_attr items (zattrs(k \<mapsto> encode_attr v))"

definition extract_zattrs ::
  "('v \<Rightarrow> pyval) \<Rightarrow> ('v, 'c, 'd) variable \<Rightarrow> (string \<rightharpoonup> pyval)" where
  "extract_zattrs encode_attr da =
     (encode_attrs encode_attr (da_attrs da) Map.empty)
       (DIMENSION_KEY \<mapsto> PList (map PStr (da_dims da)))"

subsection \<open>\<^verbatim>\<open>extract_zarray\<close>\<close>

text \<open>The dictionary \<^verbatim>\<open>meta\<close> that \<^verbatim>\<open>extract_zarray\<close> returns.\<close>

record 'c zarray =
  meta_compressor :: "'c option"
  meta_filters :: "'c list option"
  meta_chunks :: "int list"
  meta_dtype :: string
  meta_fill_value :: pyval
  meta_order :: string
  meta_shape :: "int list"
  meta_zarr_format :: int

text \<open>
  \<^verbatim>\<open>zarr.util.normalize_shape\<close> on a tuple: each extent goes through \<^verbatim>\<open>int\<close>, which
  leaves an integer as it is.
\<close>

definition normalize_shape :: "int list \<Rightarrow> int list" where
  "normalize_shape shape = map (\<lambda>s. s) shape"

text \<open>
  \<^verbatim>\<open>[c[0] for c in da.chunks]\<close>: the first block size of each dimension; \<^verbatim>\<open>c[0]\<close>
  raises \<^verbatim>\<open>IndexError\<close> on an empty tuple.
\<close>

fun first_blocks :: "int list list \<Rightarrow> error + int list" where
  "first_blocks [] = Inr []"
| "first_blocks (c # cs) =
     (case c of
        [] \<Rightarrow> Inl IndexError
      | c0 # _ \<Rightarrow>
          (case first_blocks cs of
             Inl e \<Rightarrow> Inl e
           | Inr rest \<Rightarrow> Inr (c0 # rest)))"

text \<open>
  \<^verbatim>\<open>d.get(k, default)\<close>, on the result of looking \<open>k\<close> up in \<open>d\<close>.
\<close>

definition dict_get :: "'a option \<Rightarrow> 'a \<Rightarrow> 'a" where
  "dict_get entry dflt = (case entry of None \<Rightarrow> dflt | Some v \<Rightarrow> v)"

text \<open>
  \<^verbatim>\<open>extract_zarray\<close>. The chunks are settled first, as nothing else in the function can
  fail: \<^verbatim>\<open>encoding.get("chunks", None)\<close> and, where that is \<^verbatim>\<open>None\<close>, the two branches
  on \<^verbatim>\<open>da.chunks\<close>.
\<close>

definition extract_zarray ::
  "('v, 'c, 'd) variable \<Rightarrow> 'c encoding_dict \<Rightarrow> error + 'c zarray" where
  "extract_zarray da encoding =
     (case (case enc_chunks encoding of
              Some chunks \<Rightarrow> Inr chunks
            | None \<Rightarrow>
                (case da_chunks da of
                   Some blocks \<Rightarrow> first_blocks blocks
                 | None \<Rightarrow> Inr (da_shape da))) of
        Inl e \<Rightarrow> Inl e
      | Inr chunks \<Rightarrow>
          Inr \<lparr>meta_compressor =
                 dict_get (enc_compressor encoding)
                   (dict_get (enc_compressor (da_encoding da)) None),
               meta_filters =
                 dict_get (enc_filters encoding) (dict_get (enc_filters (da_encoding da)) None),
               meta_chunks = chunks,
               meta_dtype = da_dtype_str da,
               meta_fill_value = PNone,
               meta_order = ''C'',
               meta_shape = normalize_shape (da_shape da),
               meta_zarr_format = zarr_format\<rparr>)"

section \<open>Metadata aggregation\<close>

text \<open>The values of the dictionary \<^verbatim>\<open>zmeta["metadata"]\<close>.\<close>

datatype 'c entry =
    ZAttrs "string \<rightharpoonup> pyval"
  | ZGroup "string \<rightharpoonup> int"
  | ZArray "'c zarray"

record 'c zmeta =
  zm_zarr_consolidated_format :: int
  zm_metadata :: "string \<rightharpoonup> 'c entry"

definition get_zgroup :: "string \<rightharpoonup> int" where
  "get_zgroup = [''zarr_format'' \<mapsto> zarr_format]"

definition get_zattrs :: "('v \<Rightarrow> pyval) \<Rightarrow> ('v, 'c, 'd) dataset \<Rightarrow> (string \<rightharpoonup> pyval)" where
  "get_zattrs encode_attr obj = encode_attrs encode_attr (ds_attrs obj) Map.empty"

text \<open>The keys \<^verbatim>\<open>f"{key}/{attrs_key}"\<close> and \<^verbatim>\<open>f"{key}/{array_meta_key}"\<close>.\<close>

definition meta_path :: "string \<Rightarrow> string \<Rightarrow> string" where
  "meta_path key name = key @ ''/'' @ name"

text \<open>
  The loop of \<^verbatim>\<open>get_zmetadata\<close> over \<^verbatim>\<open>self._obj.variables.items()\<close>. The override of a
  variable is \<^verbatim>\<open>self._encoding.get(key, {})\<close>. An exception of \<^verbatim>\<open>extract_zarray\<close> ends
  the loop and the construction.
\<close>

fun add_variables ::
  "('v \<Rightarrow> pyval) \<Rightarrow> (string \<rightharpoonup> 'c encoding_dict) \<Rightarrow> (string \<times> ('v, 'c, 'd) variable) list \<Rightarrow>
     (string \<rightharpoonup> 'c entry) \<Rightarrow> error + (string \<rightharpoonup> 'c entry)" where
  "add_variables encode_attr encoding [] metadata = Inr metadata"
| "add_variables encode_attr encoding ((key, da) # rest) metadata =
     (let zattrs = extract_zattrs encode_attr da
      in case extract_zarray da (dict_get (encoding key) empty_encoding) of
           Inl e \<Rightarrow> Inl e
         | Inr meta \<Rightarrow>
             add_variables encode_attr encoding rest
               (metadata(meta_path key attrs_key \<mapsto> ZAttrs zattrs,
                         meta_path key array_meta_key \<mapsto> ZArray meta)))"

definition get_zmetadata ::
  "('v \<Rightarrow> pyval) \<Rightarrow> ('v, 'c, 'd) dataset \<Rightarrow> (string \<rightharpoonup> 'c encoding_dict) \<Rightarrow> error + 'c zmeta" where
  "get_zmetadata encode_attr obj encoding =
     (case add_variables encode_attr encoding (ds_variables obj)
             [attrs_key \<mapsto> ZAttrs (get_zattrs encode_attr obj),
              group_meta_key \<mapsto> ZGroup get_zgroup] of
        Inl e \<Rightarrow> Inl e
      | Inr metadata \<Rightarrow>
          Inr \<lparr>zm_zarr_consolidated_format = zarr_consolidated_format,
               zm_metadata = metadata\<rparr>)"

section \<open>Chunk encoding\<close>

text \<open>
  A codec is its \<^verbatim>\<open>encode\<close> method: from a buffer to a buffer, or the message of the
  exception it raises. The loop \<^verbatim>\<open>for f in filters: chunk = f.encode(chunk)\<close>:
\<close>

type_synonym 'b codec = "'b \<Rightarrow> string + 'b"

fun apply_filters :: "'b codec list \<Rightarrow> 'b \<Rightarrow> error + 'b" where
  "apply_filters [] chunk = Inr chunk"
| "apply_filters (f # fs) chunk =
     (case f chunk of
        Inl m \<Rightarrow> Inl (External m)
      | Inr chunk' \<Rightarrow> apply_filters fs chunk')"

text \<open>
  \<^verbatim>\<open>_encode_chunk\<close>. \<^verbatim>\<open>if filters:\<close> is false for \<^verbatim>\<open>None\<close> and for the empty list,
  \<^verbatim>\<open>if compressor:\<close> is false for \<^verbatim>\<open>None\<close>. The test
  \<^verbatim>\<open>ensure_ndarray(chunk).dtype == object\<close> of numcodecs is the parameter \<open>is_object\<close>.
\<close>

definition encode_chunk ::
  "('b \<Rightarrow> bool) \<Rightarrow> 'b \<Rightarrow> 'b codec list option \<Rightarrow> 'b codec option \<Rightarrow> error + 'b" where
  "encode_chunk is_object chunk filters compressor =
     (case (case filters of
              None \<Rightarrow> Inr chunk
            | Some fs \<Rightarrow> if fs \<noteq> [] then apply_filters fs chunk else Inr chunk) of
        Inl e \<Rightarrow> Inl e
      | Inr chunk' \<Rightarrow>
          if is_object chunk' then Inl RuntimeError
          else (case compressor of
                  Some c \<Rightarrow> (case c chunk' of Inl m \<Rightarrow> Inl (External m) | Inr cdata \<Rightarrow> Inr cdata)
                | None \<Rightarrow> Inr chunk'))"

section \<open>The accessor and its routes\<close>

text \<open>
  The fields of a \<^verbatim>\<open>RestAccessor\<close>. The filters and the compressor of the metadata are
  handed to \<^verbatim>\<open>_encode_chunk\<close> as they are, so the codecs of the accessor are codecs on
  the buffers \<open>'b\<close> of the array engine.
\<close>

record ('v, 'b, 'd) rest_accessor =
  self_obj :: "('v, 'b codec, 'd) dataset"
  self_name :: string
  self_encoding :: "string \<rightharpoonup> 'b codec encoding_dict"
  self_metadata :: "'b codec zmeta"

text \<open>
  The collaborators: the interpreter; xarray's \<^verbatim>\<open>_encode_zarr_attr_value\<close>; what
  \<^verbatim>\<open>Dataset.__getitem__\<close> does with a name that is not among the variables; the array
  engine, which slices \<^verbatim>\<open>da.data\<close>, computes a lazy result and turns it into bytes; and
  the dtype test of numcodecs.

  For a name that is not among the variables xarray may still build a variable (for a
  dimension without coordinate, or for \<^verbatim>\<open>time.year\<close> and other dotted names whose prefix
  is a variable with that attribute); it raises \<^verbatim>\<open>KeyError\<close> when it finds nothing to
  start from, and \<^verbatim>\<open>AttributeError\<close> for a dotted name whose prefix is a variable
  without that attribute, such as \<^verbatim>\<open>temp.foo\<close>.
\<close>

record ('v, 'b, 'd) collaborators =
  python :: interpreter
  encode_zarr_attr_value :: "'v \<Rightarrow> pyval"
  virtual_variable ::
    "('v, 'b codec, 'd) dataset \<Rightarrow> string \<Rightarrow> error + ('v, 'b codec, 'd) variable"
  getitem_tobytes :: "'d \<Rightarrow> slice list \<Rightarrow> string + 'b"
  dtype_is_object :: "'b \<Rightarrow> bool"

text \<open>
  \<^verbatim>\<open>RestAccessor.__init__\<close>: the metadata document is built here and kept in
  \<^verbatim>\<open>self._metadata\<close>.
\<close>

definition init ::
  "('v, 'b, 'd) collaborators \<Rightarrow> ('v, 'b codec, 'd) dataset \<Rightarrow> string option \<Rightarrow>
     (string \<rightharpoonup> 'b codec encoding_dict) option \<Rightarrow> error + ('v, 'b, 'd) rest_accessor" where
  "init ext xarray_obj name encoding =
     (let name' = (case name of Some n \<Rightarrow> n | None \<Rightarrow> ''<Dataset rest app>'');
          encoding' = (case encoding of Some e \<Rightarrow> e | None \<Rightarrow> Map.empty)
      in case get_zmetadata (encode_zarr_attr_value ext) xarray_obj encoding' of
           Inl e \<Rightarrow> Inl e
         | Inr zmeta \<Rightarrow>
             Inr \<lparr>self_obj = xarray_obj, self_name = name', self_encoding = encoding',
                  self_metadata = zmeta\<rparr>)"

text \<open>
  \<^verbatim>\<open>self._obj[var]\<close>: the variable of that name, or what xarray does with a name that
  is not among the variables.
\<close>

definition dataset_getitem ::
  "('v, 'b, 'd) collaborators \<Rightarrow> ('v, 'b codec, 'd) dataset \<Rightarrow> string \<Rightarrow>
     error + ('v, 'b codec, 'd) variable" where
  "dataset_getitem ext obj var =
     (case map_of (ds_variables obj) var of
        Some da \<Rightarrow> Inr da
      | None \<Rightarrow> virtual_variable ext obj var)"

text \<open>
  The route \<^verbatim>\<open>/{var}/{chunk}\<close>. An entry of the metadata that is not an array record
  has no key \<^verbatim>\<open>chunks\<close>. The calls of the logger are left out.
\<close>

definition get_key ::
  "('v, 'b, 'd) collaborators \<Rightarrow> ('v, 'b, 'd) rest_accessor \<Rightarrow> string \<Rightarrow> string \<Rightarrow> error + 'b" where
  "get_key ext self var chunk =
     (case dataset_getitem ext (self_obj self) var of
        Inl e \<Rightarrow> Inl e
      | Inr da \<Rightarrow>
          (case zm_metadata (self_metadata self) (meta_path var array_meta_key) of
             None \<Rightarrow> Inl KeyError
           | Some (ZArray arr_meta) \<Rightarrow>
               (case get_indexers (python ext) chunk (meta_chunks arr_meta) of
                  Inl e \<Rightarrow> Inl e
                | Inr index \<Rightarrow>
                    (case getitem_tobytes ext (da_data da) index of
                       Inl m \<Rightarrow> Inl (External m)
                     | Inr raw \<Rightarrow>
                         encode_chunk (dtype_is_object ext) raw
                           (meta_filters arr_meta) (meta_compressor arr_meta)))
           | Some _ \<Rightarrow> Inl KeyError))"

text \<open>
  The five routes of \<^verbatim>\<open>make_app\<close>. A response is the value the handler returns (before
  \<^verbatim>\<open>json_dumps\<close> where the handler calls it) or the exception that leaves it. A handler
  gets the accessor and gives it back.
\<close>

datatype request = GetZgroup | GetZattrs | GetZmetadata | ListKeys | GetKey string string

datatype 'b response =
    ZgroupResponse "string \<rightharpoonup> int"
  | ZattrsResponse "string \<rightharpoonup> pyval"
  | ZmetadataResponse "'b codec zmeta"
  | KeysResponse "string list"
  | ChunkResponse 'b
  | Raised error

definition handle ::
  "('v, 'b, 'd) collaborators \<Rightarrow> ('v, 'b, 'd) rest_accessor \<Rightarrow> request \<Rightarrow>
     'b response \<times> ('v, 'b, 'd) rest_accessor" where
  "handle ext self req =
     (case req of
        GetZgroup \<Rightarrow> (ZgroupResponse get_zgroup, self)
      | GetZattrs \<Rightarrow> (ZattrsResponse (get_zattrs (encode_zarr_attr_value ext) (self_obj self)), self)
      | GetZmetadata \<Rightarrow> (ZmetadataResponse (self_metadata self), self)
      | ListKeys \<Rightarrow> (KeysResponse (map fst (ds_variables (self_obj self))), self)
      | GetKey var chunk \<Rightarrow>
          (case get_key ext self var chunk of
             Inl e \<Rightarrow> (Raised e, self)
           | Inr echunk \<Rightarrow> (ChunkResponse echunk, self)))"

text \<open>A sequence of requests, served one after the other.\<close>

fun serve_all ::
  "('v, 'b, 'd) collaborators \<Rightarrow> ('v, 'b, 'd) rest_accessor \<Rightarrow> request list \<Rightarrow>
     'b response list \<times> ('v, 'b, 'd) rest_accessor" where
  "serve_all ext self [] = ([], self)"
| "serve_all ext self (req # reqs) =
     (case handle ext self req of
        (resp, self') \<Rightarrow>
          (case serve_all ext self' reqs of
             (resps, self'') \<Rightarrow> (resp # resps, self'')))"

section \<open>Example data\<close>

text \<open>
  The scenario of the specification: a variable of shape \<open>[4, 4]\<close> with the attribute
  \<^verbatim>\<open>{"units": "m"}\<close>, no filters and no compressor, in a dataset of its own. Attribute
  values are JSON values already (the encoder of the examples leaves them as they are),
  buffers are strings, and the array engine returns a fixed buffer.
\<close>

definition example_variable :: "(pyval, string codec, unit) variable" where
  "example_variable =
     \<lparr>da_attrs = [(''units'', PStr ''m'')],
      da_dims = [''y'', ''x''],
      da_shape = [4, 4],
      da_chunks = None,
      da_dtype_str = ''<f8'',
      da_encoding = empty_encoding,
      da_data = ()\<rparr>"

definition example_chunked :: "(pyval, string codec, unit) variable" where
  "example_chunked = example_variable\<lparr>da_chunks := Some [[2, 2], [3, 1]]\<rparr>"

definition example_reserved :: "(pyval, string codec, unit) variable" where
  "example_reserved =
     example_variable\<lparr>da_attrs := [(''units'', PStr ''m''), (''_ARRAY_DIMENSIONS'', PStr ''m'')]\<rparr>"

definition example_dataset :: "(pyval, string codec, unit) dataset" where
  "example_dataset = \<lparr>ds_variables = [(''temp'', example_variable)], ds_attrs = []\<rparr>"

definition example_override :: "string \<rightharpoonup> string codec encoding_dict" where
  "example_override = [''temp'' \<mapsto> empty_encoding\<lparr>enc_chunks := Some [2]\<rparr>]"

definition example_zarray :: "string codec zarray" where
  "example_zarray =
     \<lparr>meta_compressor = None,
      meta_filters = None,
      meta_chunks = [4, 4],
      meta_dtype = ''<f8'',
      meta_fill_value = PNone,
      meta_order = ''C'',
      meta_shape = [4, 4],
      meta_zarr_format = 2\<rparr>"

definition example_metadata :: "string codec zarray \<Rightarrow> string codec zmeta" where
  "example_metadata meta =
     \<lparr>zm_zarr_consolidated_format = 1,
      zm_metadata =
        [attrs_key \<mapsto> ZAttrs Map.empty,
         group_meta_key \<mapsto> ZGroup [''zarr_format'' \<mapsto> 2],
         meta_path ''temp'' attrs_key \<mapsto>
           ZAttrs [''units'' \<mapsto> PStr ''m'',
                   DIMENSION_KEY \<mapsto> PList [PStr ''y'', PStr ''x'']],
         meta_path ''temp'' array_meta_key \<mapsto> ZArray meta]\<rparr>"

text \<open>
  Collaborators for the examples. The interpreter has the default digit limit of CPython;
  the examples give it ASCII strings only. The dataset lookup does what xarray does
  on the example dataset: it builds a variable for the dimension name \<^verbatim>\<open>y\<close>, which has
  no coordinate, raises \<^verbatim>\<open>AttributeError\<close> for \<^verbatim>\<open>temp.foo\<close>, and \<^verbatim>\<open>KeyError\<close> for the
  other names of the examples.
\<close>

definition example_python :: interpreter where
  "example_python = \<lparr>max_str_digits = 4300, int_non_ascii = (\<lambda>s. None)\<rparr>"

definition example_ext :: "(pyval, string, unit) collaborators" where
  "example_ext =
     \<lparr>python = example_python,
      encode_zarr_attr_value = id,
      virtual_variable =
        (\<lambda>obj var. if var = ''y'' then Inr example_variable
                    else if var = ''temp.foo'' then Inl AttributeError
                    else Inl KeyError),
      getitem_tobytes = (\<lambda>d index. Inr ''raw''),
      dtype_is_object = (\<lambda>b. b = ''object'')\<rparr>"

definition example_accessor :: "(pyval, string, unit) rest_accessor" where
  "example_accessor =
     \<lparr>self_obj = example_dataset,
      self_name = ''<Dataset rest app>'',
      self_encoding = Map.empty,
      self_metadata = example_metadata example_zarray\<rparr>"

section \<open>Properties of the coordinate resolver\<close>

lemma indexers_zip_error: "indexers_zip py toks cs = Inl e \<Longrightarrow> e = ValueError"
  by (induction py toks cs arbitrary: e rule: indexers_zip.induct)
     (auto split: option.splits sum.splits)

lemma indexers_zip_parsed:
  "length coords = length cs \<Longrightarrow> map (py_int py) toks = map Some coords \<Longrightarrow>
     indexers_zip py toks cs = Inr (map2 slice_axis coords cs)"
proof (induction py toks cs arbitrary: coords rule: indexers_zip.induct)
  case (1 py i ikeys c chunks)
  then show ?case by (cases coords) auto
qed auto

lemma indexers_zip_succeeds:
  "(\<exists>index. indexers_zip py toks cs = Inr index) \<longleftrightarrow>
     (\<forall>t \<in> set (take (length cs) toks). py_int py t \<noteq> None)"
  by (induction py toks cs rule: indexers_zip.induct)
     (auto split: option.splits sum.splits)

lemma indexers_zip_length:
  "indexers_zip py toks cs = Inr index \<Longrightarrow> length index = min (length toks) (length cs)"
  by (induction py toks cs arbitrary: index rule: indexers_zip.induct)
     (auto split: option.splits sum.splits)

lemma digit_char_props:
  assumes "d < 10"
  shows "is_digit (digit_char d)" and "digit_value (digit_char d) = int d"
    and "\<not> is_space (digit_char d)" and "(of_char (digit_char d) :: nat) < 128"
    and "digit_char d \<noteq> CHR ''-''" and "digit_char d \<noteq> CHR ''+''"
    and "digit_char d \<noteq> CHR ''.''"
proof -
  have v: "(of_char (digit_char d) :: nat) = 48 + d"
    using assms by (simp add: digit_char_def)
  show "is_digit (digit_char d)" using assms v by (simp add: is_digit_def)
  show "digit_value (digit_char d) = int d" using v by (simp add: digit_value_def)
  show "(of_char (digit_char d) :: nat) < 128" using assms v by simp
  have "(of_char (digit_char d) :: nat) \<noteq> of_char CHR '' ''" using v by simp
  then have "digit_char d \<noteq> CHR '' ''" by metis
  then show "\<not> is_space (digit_char d)" using v by (simp add: is_space_def)
  have "(of_char (digit_char d) :: nat) \<noteq> of_char CHR ''-''" using v by simp
  then show "digit_char d \<noteq> CHR ''-''" by metis
  have "(of_char (digit_char d) :: nat) \<noteq> of_char CHR ''+''" using v by simp
  then show "digit_char d \<noteq> CHR ''+''" by metis
  have "(of_char (digit_char d) :: nat) \<noteq> of_char CHR ''.''" using v by simp
  then show "digit_char d \<noteq> CHR ''.''" by metis
qed

text \<open>
  C1, as the claim states it, does not hold: \<^verbatim>\<open>get_indexers\<close> never compares the number of
  tokens with the number of chunk sizes, and \<^verbatim>\<open>int\<close> takes a negative number. Three tokens
  against two chunk sizes give two ranges, and the token \<^verbatim>\<open>-1\<close> gives the range from
  \<open>-2\<close> to \<open>0\<close>.
\<close>

theorem get_indexers_counterexample:
  "length (str_split CHR ''.'' ''0.0.0'') \<noteq> length [2, 2 :: int] \<and>
   get_indexers example_python ''0.0.0'' [2, 2] = Inr [Slice 0 2, Slice 0 2] \<and>
   get_indexers example_python ''-1'' [2] = Inr [Slice (- 2) 0]"
  by code_simp

text \<open>
  C1, amended: \<^verbatim>\<open>get_indexers\<close> fails exactly when one of the tokens that \<^verbatim>\<open>zip\<close> pairs
  with a chunk size (the first ones, as many as there are chunk sizes) is not accepted by
  \<^verbatim>\<open>int\<close>; the failure is then the \<^verbatim>\<open>ValueError\<close> of \<^verbatim>\<open>int\<close>. In every other case it
  succeeds and returns as many ranges as the shorter of the two sequences has elements.
\<close>

theorem get_indexers_fails_iff:
  "((\<exists>e. get_indexers py key chunks = Inl e) \<longleftrightarrow>
      (\<exists>t \<in> set (take (length chunks) (str_split CHR ''.'' key)). py_int py t = None)) \<and>
   (\<forall>e. get_indexers py key chunks = Inl e \<longrightarrow> e = ValueError) \<and>
   (\<forall>index. get_indexers py key chunks = Inr index \<longrightarrow>
      length index = min (length (str_split CHR ''.'' key)) (length chunks))"
proof -
  let ?toks = "str_split CHR ''.'' key"
  have "(\<exists>e. indexers_zip py ?toks chunks = Inl e) \<longleftrightarrow>
        \<not> (\<exists>index. indexers_zip py ?toks chunks = Inr index)"
    by (cases "indexers_zip py ?toks chunks") auto
  then show ?thesis
    using indexers_zip_succeeds [of py ?toks chunks] indexers_zip_error [of py ?toks chunks]
      indexers_zip_length [of py ?toks chunks]
    by (auto simp: get_indexers_def)
qed

theorem get_indexers_fails_iff_witness:
  "py_int example_python ''a'' = None \<and>
   get_indexers example_python ''0.a'' [2, 2] = Inl ValueError \<and>
   (\<exists>index. get_indexers example_python ''0.a'' [2] = Inr index \<and> length index = 1)"
proof -
  have a: "py_int example_python ''a'' = None"
    by code_simp
  have "\<exists>t \<in> set (take (length [2, 2 :: int]) (str_split CHR ''.'' ''0.a'')).
      py_int example_python t = None"
    by code_simp
  then have fails: "get_indexers example_python ''0.a'' [2, 2] = Inl ValueError"
    using get_indexers_fails_iff [of example_python "''0.a''" "[2, 2]"] by blast
  have "\<not> (\<exists>t \<in> set (take (length [2 :: int]) (str_split CHR ''.'' ''0.a'')).
      py_int example_python t = None)"
    by code_simp
  then have "\<not> (\<exists>e. get_indexers example_python ''0.a'' [2] = Inl e)"
    using get_indexers_fails_iff [of example_python "''0.a''" "[2]"] by blast
  then obtain index where ok: "get_indexers example_python ''0.a'' [2] = Inr index"
    by (cases "get_indexers example_python ''0.a'' [2]") auto
  then have "length index = min (length (str_split CHR ''.'' ''0.a'')) (length [2 :: int])"
    using get_indexers_fails_iff [of example_python "''0.a''" "[2]"] by blast
  then have "length index = 1"
    by simp
  with a fails ok show ?thesis
    by blast
qed

subsection \<open>Decimal numerals\<close>

lemma decimal_chars: "c \<in> set (decimal n) \<Longrightarrow> \<exists>d<10. c = digit_char d"
proof (induction n rule: decimal.induct)
  case (1 n)
  show ?case
  proof (cases "n < 10")
    case True
    with "1.prems" show ?thesis
      by (subst (asm) decimal.simps) auto
  next
    case False
    with "1.prems" have "c \<in> set (decimal (n div 10)) \<or> c = digit_char (n mod 10)"
      by (subst (asm) decimal.simps) auto
    with False "1.IH" show ?thesis
      by (metis mod_less_divisor zero_less_numeral)
  qed
qed

lemma decimal_nonempty: "decimal n \<noteq> []"
  by (subst decimal.simps) simp

lemma digits_value_digits:
  "\<forall>c \<in> set ds. is_digit c \<Longrightarrow>
     digits_value acc ds = Some (foldl (\<lambda>a c. 10 * a + digit_value c) acc ds)"
  by (induction acc ds rule: digits_value.induct) auto

lemma decimal_foldl: "foldl (\<lambda>a c. 10 * a + digit_value c) 0 (decimal n) = int n"
proof (induction n rule: decimal.induct)
  case (1 n)
  show ?case
  proof (cases "n < 10")
    case True
    then show ?thesis
      by (subst decimal.simps) (simp add: digit_char_props)
  next
    case False
    have "n mod 10 < 10" by simp
    with False "1.IH" show ?thesis
      by (subst decimal.simps) (simp add: digit_char_props zdiv_int zmod_int)
  qed
qed

lemma unsigned_value_decimal: "unsigned_value (decimal n) = Some (int n)"
proof -
  obtain d ds where split: "decimal n = d # ds"
    using decimal_nonempty [of n] by (cases "decimal n") auto
  have digits: "\<forall>c \<in> set (decimal n). is_digit c"
    using decimal_chars digit_char_props(1) by blast
  with split have "is_digit d" "\<forall>c \<in> set ds. is_digit c"
    by auto
  then have "unsigned_value (d # ds) =
      Some (foldl (\<lambda>a c. 10 * a + digit_value c) 0 (d # ds))"
    by (simp add: unsigned_value_def digits_value_digits)
  with split decimal_foldl [of n] show ?thesis
    by simp
qed

lemma strip_no_blank: "\<forall>c \<in> set s. \<not> is_space c \<Longrightarrow> strip s = s"
proof -
  assume a: "\<forall>c \<in> set s. \<not> is_space c"
  have d: "dropWhile is_space t = t" if "\<forall>c \<in> set t. \<not> is_space c" for t
    using that by (cases t) auto
  from a have "dropWhile is_space s = s"
    by (rule d)
  moreover from a have "dropWhile is_space (rev s) = rev s"
    by (intro d) simp
  ultimately show ?thesis
    by (simp add: strip_def)
qed

lemma py_int_decimal:
  assumes "max_str_digits py = 0 \<or> length (decimal n) \<le> max_str_digits py"
  shows "py_int py (decimal n) = Some (int n)"
proof -
  have chars: "\<forall>c \<in> set (decimal n). \<exists>d<10. c = digit_char d"
    using decimal_chars by blast
  then have ascii: "is_ascii (decimal n)"
    by (auto simp: is_ascii_def list_all_iff digit_char_props)
  from chars have "filter is_digit (decimal n) = decimal n"
    by (auto simp: filter_id_conv digit_char_props)
  with assms have limit: "\<not> exceeds_limit py (decimal n)"
    by (auto simp: exceeds_limit_def)
  from chars have strip: "strip (decimal n) = decimal n"
    by (intro strip_no_blank) (auto simp: digit_char_props)
  obtain c cs where split: "decimal n = c # cs"
    using decimal_nonempty [of n] by (cases "decimal n") auto
  with chars have "c \<noteq> CHR ''-''" "c \<noteq> CHR ''+''"
    by (auto simp: digit_char_props)
  with ascii limit strip split unsigned_value_decimal [of n] show ?thesis
    by (simp add: py_int_def)
qed

lemma decimal_length_lower: "10 ^ k \<le> n \<Longrightarrow> k < length (decimal n)"
proof (induction k arbitrary: n)
  case 0
  with decimal_nonempty [of n] show ?case by simp
next
  case (Suc k)
  define x :: nat where "x = 10 ^ k"
  have "1 \<le> x"
    by (simp add: x_def)
  moreover from Suc.prems have "10 * x \<le> n"
    by (simp add: x_def)
  ultimately have big: "\<not> n < 10" and quot: "x \<le> n div 10"
    by arith+
  from Suc.IH [of "n div 10"] quot have "k < length (decimal (n div 10))"
    by (simp add: x_def)
  with big(1) show ?case
    by (subst decimal.simps) simp
qed

lemma py_int_over_limit:
  assumes "0 < max_str_digits py" and "10 ^ max_str_digits py \<le> n"
  shows "py_int py (decimal n) = None"
proof -
  have chars: "\<forall>c \<in> set (decimal n). \<exists>d<10. c = digit_char d"
    using decimal_chars by blast
  then have ascii: "is_ascii (decimal n)"
    by (auto simp: is_ascii_def list_all_iff digit_char_props)
  from chars have "filter is_digit (decimal n) = decimal n"
    by (auto simp: filter_id_conv digit_char_props)
  with assms decimal_length_lower [OF assms(2)] have "exceeds_limit py (decimal n)"
    by (simp add: exceeds_limit_def)
  with ascii show ?thesis
    by (simp add: py_int_def)
qed

lemma str_split_no_sep: "sep \<notin> set t \<Longrightarrow> str_split sep t = [t]"
  by (induction t) auto

lemma str_split_append: "sep \<notin> set t \<Longrightarrow> str_split sep (t @ sep # rest) = t # str_split sep rest"
  by (induction t) auto

lemma str_split_dot_join:
  "ts \<noteq> [] \<Longrightarrow> \<forall>t \<in> set ts. CHR ''.'' \<notin> set t \<Longrightarrow> str_split CHR ''.'' (dot_join ts) = ts"
proof (induction ts rule: dot_join.induct)
  case 1
  then show ?case by simp
next
  case (2 t)
  then show ?case by (simp add: str_split_no_sep)
next
  case (3 t u ts)
  then show ?case by (simp add: str_split_append)
qed

lemma decimal_no_dot: "CHR ''.'' \<notin> set (decimal n)"
proof
  assume "CHR ''.'' \<in> set (decimal n)"
  from decimal_chars [OF this] obtain d where "d < 10" and "CHR ''.'' = digit_char d"
    by (elim exE conjE)
  with digit_char_props(7) [of d] show False
    by simp
qed

lemma get_indexers_over_limit:
  assumes "0 < max_str_digits py" and "10 ^ max_str_digits py \<le> n"
  shows "get_indexers py (dot_join (map decimal [n])) [c] = Inl ValueError"
proof -
  from assms have "py_int py (decimal n) = None"
    by (rule py_int_over_limit)
  then show ?thesis
    by (simp add: get_indexers_def str_split_no_sep decimal_no_dot)
qed

text \<open>
  C2, as the claim states it, does not hold for every non-negative integer: \<^verbatim>\<open>int\<close>
  refuses a string with more digits than the limit of the interpreter. With the limit of
  4300 digits, the coordinate string that is the numeral of \<open>10 ^ 4300\<close>, which has 4301
  digits, is not resolved against one chunk size.
\<close>

theorem get_indexers_ranges_counterexample:
  "get_indexers example_python (dot_join (map decimal [10 ^ 4300])) [1] = Inl ValueError"
proof -
  have limit: "max_str_digits example_python = 4300"
    by (simp add: example_python_def)
  have a: "0 < max_str_digits example_python"
    by (simp add: example_python_def)
  have b: "10 ^ max_str_digits example_python \<le> (10 ^ 4300 :: nat)"
    by (subst limit) (rule order_refl)
  show ?thesis
    by (rule get_indexers_over_limit [OF a b])
qed

text \<open>
  C2, amended: let the coordinate string be the numerals of the non-negative integers
  \<open>coords\<close>, joined by dots, one for each chunk size, none of them with more digits than
  the interpreter's limit (or the limit switched off). Then \<^verbatim>\<open>get_indexers\<close> succeeds, and
  its range on axis \<open>k\<close> runs from \<open>coords ! k * chunks ! k\<close> to
  \<open>(coords ! k + 1) * chunks ! k\<close>. The shape of the array is not an argument of the
  function, so no range is cut to it.
\<close>

theorem get_indexers_ranges:
  assumes "length coords = length chunks"
    and "max_str_digits py = 0 \<or> (\<forall>i \<in> set coords. length (decimal i) \<le> max_str_digits py)"
  shows "get_indexers py (dot_join (map decimal coords)) chunks =
           Inr (map2 (\<lambda>i c. Slice (int i * c) ((int i + 1) * c)) coords chunks)"
proof (cases "coords = []")
  case True
  with assms(1) show ?thesis
    by (simp add: get_indexers_def)
next
  case False
  then have "str_split CHR ''.'' (dot_join (map decimal coords)) = map decimal coords"
    by (intro str_split_dot_join) (auto simp: decimal_no_dot)
  moreover from assms(2) have "map (py_int py) (map decimal coords) = map Some (map int coords)"
    by (auto simp: py_int_decimal)
  ultimately have "get_indexers py (dot_join (map decimal coords)) chunks =
      Inr (map2 slice_axis (map int coords) chunks)"
    using assms(1) indexers_zip_parsed [of "map int coords" chunks py "map decimal coords"]
    by (simp add: get_indexers_def)
  then show ?thesis
    by (simp add: zip_map1 slice_axis_def case_prod_unfold)
qed

theorem get_indexers_ranges_witness:
  "dot_join (map decimal [10, 2]) = ''10.2'' \<and>
   get_indexers example_python ''10.2'' [3, 4] = Inr [Slice 30 33, Slice 8 12]"
proof -
  have written: "dot_join (map decimal [10, 2]) = ''10.2''"
    by code_simp
  have len: "length [10, 2 :: nat] = length [3, 4 :: int]"
    by simp
  have "\<forall>i \<in> set [10, 2]. length (decimal i) \<le> max_str_digits example_python"
    by code_simp
  then have limit: "max_str_digits example_python = 0 \<or>
      (\<forall>i \<in> set [10, 2]. length (decimal i) \<le> max_str_digits example_python)"
    by blast
  from get_indexers_ranges [OF len limit] written show ?thesis
    by simp
qed

section \<open>Properties of the metadata extractor\<close>

subsection \<open>Attributes\<close>

lemma encode_attrs_absent:
  "k \<notin> fst ` set items \<Longrightarrow> encode_attrs encode_attr items m k = m k"
  by (induction items arbitrary: m) (auto split: prod.splits)

lemma encode_attrs_present:
  "distinct (map fst items) \<Longrightarrow> (k, v) \<in> set items \<Longrightarrow>
     encode_attrs encode_attr items m k = Some (encode_attr v)"
proof (induction items arbitrary: m)
  case Nil
  then show ?case by simp
next
  case (Cons item items)
  obtain k' v' where item: "item = (k', v')" by (cases item)
  show ?case
  proof (cases "(k, v) = item")
    case True
    with Cons.prems item have "k \<notin> fst ` set items" by auto
    with True item show ?thesis
      by (simp add: encode_attrs_absent)
  next
    case False
    with Cons show ?thesis by (auto simp: item)
  qed
qed

lemma encode_attrs_dom:
  "dom (encode_attrs encode_attr items m) = dom m \<union> fst ` set items"
proof (induction items arbitrary: m)
  case Nil
  then show ?case by simp
next
  case (Cons item items)
  obtain k v where item: "item = (k, v)" by (cases item)
  have "dom (encode_attrs encode_attr items (m(k \<mapsto> encode_attr v))) =
      dom (m(k \<mapsto> encode_attr v)) \<union> fst ` set items"
    by (rule Cons.IH)
  then show ?case
    by (simp add: item)
qed

text \<open>
  C9, as the claim states it, does not hold for an attribute whose key is the reserved
  key: the variable below has the attribute \<^verbatim>\<open>_ARRAY_DIMENSIONS\<close> with the value
  \<^verbatim>\<open>"m"\<close>, and the record holds the list of the dimension names under that key, not
  the attribute's value.
\<close>

theorem extract_zattrs_counterexample:
  "(DIMENSION_KEY, PStr ''m'') \<in> set (da_attrs example_reserved) \<and>
   extract_zattrs id example_reserved DIMENSION_KEY = Some (PList [PStr ''y'', PStr ''x'']) \<and>
   extract_zattrs id example_reserved DIMENSION_KEY \<noteq> Some (id (PStr ''m''))"
  by (simp add: extract_zattrs_def example_reserved_def example_variable_def DIMENSION_KEY_def)

text \<open>
  C9, amended: the record of \<^verbatim>\<open>extract_zattrs\<close> holds every key/value pair of the
  attribute mapping whose key is not the reserved key, the value passed through the
  encoder; under the reserved key it holds the list of the dimension names, in their
  order; and it has no other key. The keys of a dictionary are distinct.
\<close>

theorem extract_zattrs_contents:
  assumes "distinct (map fst (da_attrs da))"
  shows "(\<forall>k v. (k, v) \<in> set (da_attrs da) \<and> k \<noteq> DIMENSION_KEY \<longrightarrow>
            extract_zattrs encode_attr da k = Some (encode_attr v)) \<and>
         extract_zattrs encode_attr da DIMENSION_KEY = Some (PList (map PStr (da_dims da))) \<and>
         dom (extract_zattrs encode_attr da) = fst ` set (da_attrs da) \<union> {DIMENSION_KEY}"
  using assms
  by (auto simp: extract_zattrs_def encode_attrs_present encode_attrs_dom)

theorem extract_zattrs_contents_witness:
  "distinct (map fst (da_attrs example_variable)) \<and>
   (''units'', PStr ''m'') \<in> set (da_attrs example_variable) \<and>
   extract_zattrs id example_variable ''units'' = Some (PStr ''m'') \<and>
   extract_zattrs id example_variable DIMENSION_KEY = Some (PList [PStr ''y'', PStr ''x'']) \<and>
   dom (extract_zattrs id example_variable) = {''units'', DIMENSION_KEY}"
proof -
  have d: "distinct (map fst (da_attrs example_variable))"
    by (simp add: example_variable_def)
  have m: "(''units'', PStr ''m'') \<in> set (da_attrs example_variable)"
    by (simp add: example_variable_def)
  have n: "''units'' \<noteq> DIMENSION_KEY"
    by (simp add: DIMENSION_KEY_def)
  have a: "fst ` set (da_attrs example_variable) \<union> {DIMENSION_KEY} = {''units'', DIMENSION_KEY}"
    by (auto simp: example_variable_def)
  have b: "map PStr (da_dims example_variable) = [PStr ''y'', PStr ''x'']"
    by (simp add: example_variable_def)
  from extract_zattrs_contents [OF d, of id] m n
  have "extract_zattrs id example_variable ''units'' = Some (id (PStr ''m''))"
    "extract_zattrs id example_variable DIMENSION_KEY =
       Some (PList (map PStr (da_dims example_variable)))"
    "dom (extract_zattrs id example_variable) =
       fst ` set (da_attrs example_variable) \<union> {DIMENSION_KEY}"
    by blast+
  with d m a b show ?thesis
    by auto
qed

text \<open>
  C10: when the attribute mapping has the reserved key, the loop over the attributes first
  stores the encoded value of that attribute, and the assignment after the loop replaces
  it by the list of the dimension names, without any error. Unless the two values are
  equal, the value of the attribute is not in the record.
\<close>

theorem extract_zattrs_overwrites:
  assumes "distinct (map fst (da_attrs da))"
    and "(DIMENSION_KEY, v) \<in> set (da_attrs da)"
  shows "encode_attrs encode_attr (da_attrs da) Map.empty DIMENSION_KEY = Some (encode_attr v) \<and>
         extract_zattrs encode_attr da DIMENSION_KEY = Some (PList (map PStr (da_dims da))) \<and>
         (encode_attr v \<noteq> PList (map PStr (da_dims da)) \<longrightarrow>
            extract_zattrs encode_attr da DIMENSION_KEY \<noteq> Some (encode_attr v))"
  using assms
  by (simp add: extract_zattrs_def encode_attrs_present)

theorem extract_zattrs_overwrites_witness:
  "distinct (map fst (da_attrs example_reserved)) \<and>
   (DIMENSION_KEY, PStr ''m'') \<in> set (da_attrs example_reserved) \<and>
   encode_attrs id (da_attrs example_reserved) Map.empty DIMENSION_KEY = Some (PStr ''m'') \<and>
   extract_zattrs id example_reserved DIMENSION_KEY = Some (PList [PStr ''y'', PStr ''x'']) \<and>
   extract_zattrs id example_reserved DIMENSION_KEY \<noteq> Some (PStr ''m'')"
proof -
  have d: "distinct (map fst (da_attrs example_reserved))"
    by (simp add: example_reserved_def example_variable_def)
  have m: "(DIMENSION_KEY, PStr ''m'') \<in> set (da_attrs example_reserved)"
    by (simp add: example_reserved_def example_variable_def DIMENSION_KEY_def)
  have b: "map PStr (da_dims example_reserved) = [PStr ''y'', PStr ''x'']"
    by (simp add: example_reserved_def example_variable_def)
  from extract_zattrs_overwrites [OF d m, of id] b d m show ?thesis
    by simp
qed

subsection \<open>Chunk sizes\<close>

lemma first_blocks_nonempty:
  "[] \<notin> set blocks \<Longrightarrow> first_blocks blocks = Inr (map hd blocks)"
  by (induction blocks) (auto split: list.splits)

lemma first_blocks_empty:
  "[] \<in> set blocks \<Longrightarrow> first_blocks blocks = Inl IndexError"
  by (induction blocks) (auto split: list.splits sum.splits)

lemma first_blocks_length: "first_blocks blocks = Inr chunks \<Longrightarrow> length chunks = length blocks"
  by (induction blocks arbitrary: chunks) (auto split: list.splits sum.splits)

text \<open>
  C3: the chunks of the record are the chunks of the override if it has any; otherwise,
  for a variable with native chunking, the first block size of each dimension; otherwise
  the shape, which is then also the shape of the record. The one failure is the
  \<^verbatim>\<open>IndexError\<close> of \<^verbatim>\<open>c[0]\<close> on a dimension without block.
\<close>

theorem extract_zarray_chunks:
  "(enc_chunks encoding = Some chunks \<longrightarrow>
      (\<exists>meta. extract_zarray da encoding = Inr meta \<and> meta_chunks meta = chunks)) \<and>
   (enc_chunks encoding = None \<and> da_chunks da = Some blocks \<and> [] \<notin> set blocks \<longrightarrow>
      (\<exists>meta. extract_zarray da encoding = Inr meta \<and> meta_chunks meta = map hd blocks)) \<and>
   (enc_chunks encoding = None \<and> da_chunks da = Some blocks \<and> [] \<in> set blocks \<longrightarrow>
      extract_zarray da encoding = Inl IndexError) \<and>
   (enc_chunks encoding = None \<and> da_chunks da = None \<longrightarrow>
      (\<exists>meta. extract_zarray da encoding = Inr meta \<and> meta_chunks meta = da_shape da \<and>
         meta_chunks meta = meta_shape meta))"
  by (simp add: extract_zarray_def Let_def first_blocks_nonempty first_blocks_empty
      normalize_shape_def)

theorem extract_zarray_chunks_witness:
  "(\<exists>meta. extract_zarray example_chunked (empty_encoding\<lparr>enc_chunks := Some [1, 4]\<rparr>) = Inr meta \<and>
      meta_chunks meta = [1, 4]) \<and>
   (\<exists>meta. extract_zarray example_chunked empty_encoding = Inr meta \<and>
      meta_chunks meta = [2, 3]) \<and>
   extract_zarray (example_chunked\<lparr>da_chunks := Some [[2, 2], []]\<rparr>) empty_encoding =
     Inl IndexError \<and>
   (\<exists>meta. extract_zarray example_variable empty_encoding = Inr meta \<and>
      meta_chunks meta = [4, 4] \<and> meta_shape meta = [4, 4])"
proof -
  let ?override = "empty_encoding\<lparr>enc_chunks := Some [1, 4]\<rparr> :: string codec encoding_dict"
  let ?none = "empty_encoding :: string codec encoding_dict"
  let ?broken = "example_chunked\<lparr>da_chunks := Some [[2, 2], []]\<rparr>"
  have a: "enc_chunks ?override = Some [1, 4]"
    by (simp add: empty_encoding_def)
  have b: "enc_chunks ?none = None \<and> da_chunks example_chunked = Some [[2, 2], [3, 1]] \<and>
      [] \<notin> set [[2, 2], [3, 1 :: int]]"
    by (simp add: empty_encoding_def example_chunked_def)
  have c: "enc_chunks ?none = None \<and> da_chunks ?broken = Some [[2, 2], []] \<and>
      [] \<in> set [[2, 2], [] :: int list]"
    by (simp add: empty_encoding_def)
  have d: "enc_chunks ?none = None \<and> da_chunks example_variable = None"
    by (simp add: empty_encoding_def example_variable_def)
  have s: "da_shape example_variable = [4, 4]"
    by (simp add: example_variable_def)
  from a extract_zarray_chunks [of ?override "[1, 4]" example_chunked]
  have 1: "\<exists>meta. extract_zarray example_chunked ?override = Inr meta \<and> meta_chunks meta = [1, 4]"
    by blast
  from b extract_zarray_chunks [of ?none _ example_chunked "[[2, 2], [3, 1]]"]
  have 2: "\<exists>meta. extract_zarray example_chunked ?none = Inr meta \<and>
      meta_chunks meta = map hd [[2, 2], [3, 1]]"
    by blast
  from c extract_zarray_chunks [of ?none _ ?broken "[[2, 2], []]"]
  have 3: "extract_zarray ?broken ?none = Inl IndexError"
    by blast
  from d extract_zarray_chunks [of ?none _ example_variable]
  have 4: "\<exists>meta. extract_zarray example_variable ?none = Inr meta \<and>
      meta_chunks meta = da_shape example_variable \<and> meta_chunks meta = meta_shape meta"
    by blast
  from 1 2 3 4 s show ?thesis
    by auto
qed

lemma extract_zarray_lengths:
  assumes "extract_zarray da encoding = Inr meta"
    and "\<forall>blocks. da_chunks da = Some blocks \<longrightarrow> length blocks = length (da_shape da)"
  shows "length (meta_shape meta) = length (da_shape da) \<and>
         (case enc_chunks encoding of
            None \<Rightarrow> length (meta_chunks meta) = length (da_shape da)
          | Some chunks \<Rightarrow> meta_chunks meta = chunks)"
  using assms
  by (auto simp: extract_zarray_def Let_def normalize_shape_def
      split: option.splits sum.splits dest: first_blocks_length)

section \<open>Properties of the chunk encoder\<close>

lemma apply_filters_fold:
  fixes r :: "error + 'b" and fs :: "'b codec list"
  shows "(case r of Inl e \<Rightarrow> Inl e | Inr b \<Rightarrow> apply_filters fs b) =
     fold (\<lambda>f r. case r of
                    Inl e \<Rightarrow> Inl e
                  | Inr b \<Rightarrow> (case f b of Inl m \<Rightarrow> Inl (External m) | Inr b' \<Rightarrow> Inr b')) fs r"
proof (induction fs arbitrary: r)
  case Nil
  then show ?case by (simp split: sum.splits)
next
  case (Cons f fs)
  show ?case
  proof (cases r)
    case (Inl e)
    with Cons [of "Inl e"] show ?thesis by simp
  next
    case (Inr b)
    with Cons [of "case f b of Inl m \<Rightarrow> Inl (External m) | Inr b' \<Rightarrow> Inr b'"] show ?thesis
      by (simp split: sum.splits)
  qed
qed

lemma encode_chunk_filters:
  "encode_chunk is_object chunk filters compressor =
     (case apply_filters (case filters of None \<Rightarrow> [] | Some fs \<Rightarrow> fs) chunk of
        Inl e \<Rightarrow> Inl e
      | Inr chunk' \<Rightarrow>
          if is_object chunk' then Inl RuntimeError
          else (case compressor of
                  Some c \<Rightarrow> (case c chunk' of Inl m \<Rightarrow> Inl (External m) | Inr cdata \<Rightarrow> Inr cdata)
                | None \<Rightarrow> Inr chunk'))"
  by (simp add: encode_chunk_def split: option.splits)

text \<open>
  C4: \<^verbatim>\<open>_encode_chunk\<close> runs the filters from the first to the last, each on the result
  of the one before it (the fold below, which stops at the first filter that raises). The
  compressor, if there is one, then runs on the filtered buffer; without a compressor
  the filtered buffer is returned as it is. Between the two stands the dtype test of C5.
\<close>

theorem encode_chunk_pipeline:
  "encode_chunk is_object chunk filters compressor =
     (case fold (\<lambda>f r. case r of
                         Inl e \<Rightarrow> Inl e
                       | Inr b \<Rightarrow> (case f b of Inl m \<Rightarrow> Inl (External m) | Inr b' \<Rightarrow> Inr b'))
             (case filters of None \<Rightarrow> [] | Some fs \<Rightarrow> fs) (Inr chunk) of
        Inl e \<Rightarrow> Inl e
      | Inr filtered \<Rightarrow>
          if is_object filtered then Inl RuntimeError
          else (case compressor of
                  None \<Rightarrow> Inr filtered
                | Some c \<Rightarrow> (case c filtered of Inl m \<Rightarrow> Inl (External m) | Inr cdata \<Rightarrow> Inr cdata)))"
  using apply_filters_fold [where r = "Inr chunk" and fs = "case filters of None \<Rightarrow> [] | Some fs \<Rightarrow> fs", symmetric]
  by (simp add: encode_chunk_filters split: sum.splits option.splits)

theorem encode_chunk_pipeline_witness:
  "encode_chunk (\<lambda>b. b = ''object'') ''raw''
     (Some [\<lambda>b. Inr (b @ ''1''), \<lambda>b. Inr (b @ ''2'')]) (Some (\<lambda>b. Inr (''z'' @ b))) =
     Inr ''zraw12'' \<and>
   encode_chunk (\<lambda>b. b = ''object'') ''raw''
     (Some [\<lambda>b. Inr (b @ ''1''), \<lambda>b. Inr (b @ ''2'')]) None = Inr ''raw12'' \<and>
   encode_chunk (\<lambda>b. b = ''object'') ''raw'' None None = Inr ''raw''"
  using
    encode_chunk_pipeline [of "\<lambda>b. b = ''object''" "''raw''"
      "Some [\<lambda>b. Inr (b @ ''1''), \<lambda>b. Inr (b @ ''2'')]" "Some (\<lambda>b. Inr (''z'' @ b))"]
    encode_chunk_pipeline [of "\<lambda>b. b = ''object''" "''raw''"
      "Some [\<lambda>b. Inr (b @ ''1''), \<lambda>b. Inr (b @ ''2'')]" None]
    encode_chunk_pipeline [of "\<lambda>b. b = ''object''" "''raw''" None None]
  by simp

text \<open>
  C5: \<^verbatim>\<open>_encode_chunk\<close> raises its \<^verbatim>\<open>RuntimeError\<close> exactly when the filters have all
  returned and the buffer they leave has the object dtype. The buffer before the filters
  does not count, and the compressor does not either: the statement holds for every
  compressor, also for one that would raise.
\<close>

theorem encode_chunk_object_check:
  "encode_chunk is_object chunk filters compressor = Inl RuntimeError \<longleftrightarrow>
     (\<exists>filtered. apply_filters (case filters of None \<Rightarrow> [] | Some fs \<Rightarrow> fs) chunk = Inr filtered \<and>
        is_object filtered)"
proof -
  have "apply_filters fs b \<noteq> Inl RuntimeError" for fs :: "'a codec list" and b
    by (induction fs arbitrary: b) (auto split: sum.splits)
  then show ?thesis
    by (auto simp: encode_chunk_filters split: sum.splits option.splits)
qed

theorem encode_chunk_object_check_witness:
  "encode_chunk (\<lambda>b. b = ''object'') ''raw'' (Some [\<lambda>b. Inr ''object''])
     (Some (\<lambda>b. Inl ''compressor failed'')) = Inl RuntimeError \<and>
   encode_chunk (\<lambda>b. b = ''object'') ''object'' (Some [\<lambda>b. Inr ''bytes'']) None \<noteq>
     Inl RuntimeError"
  using
    encode_chunk_object_check [of "\<lambda>b. b = ''object''" "''raw''"
      "Some [\<lambda>b. Inr ''object'']" "Some (\<lambda>b. Inl ''compressor failed'')"]
    encode_chunk_object_check [of "\<lambda>b. b = ''object''" "''object''"
      "Some [\<lambda>b. Inr ''bytes'']" None]
  by simp

section \<open>Properties of the metadata document and the routes\<close>

lemma meta_path_inject: "meta_path var name = meta_path key name \<longleftrightarrow> var = key"
  by (simp add: meta_path_def)

lemma meta_path_array_attrs: "meta_path var array_meta_key \<noteq> meta_path key attrs_key"
  by (simp add: meta_path_def array_meta_key_def attrs_key_def)

lemma meta_path_attrs_array: "meta_path var attrs_key \<noteq> meta_path key array_meta_key"
  by (simp add: meta_path_def array_meta_key_def attrs_key_def)

lemma meta_path_not_top:
  "meta_path var array_meta_key \<noteq> attrs_key" "meta_path var array_meta_key \<noteq> group_meta_key"
proof -
  have "length (meta_path var array_meta_key) \<noteq> length attrs_key"
    by (simp add: meta_path_def array_meta_key_def attrs_key_def)
  then show "meta_path var array_meta_key \<noteq> attrs_key" by metis
  have "length (meta_path var array_meta_key) \<noteq> length group_meta_key"
    by (simp add: meta_path_def array_meta_key_def group_meta_key_def)
  then show "meta_path var array_meta_key \<noteq> group_meta_key" by metis
qed

lemma add_variables_absent:
  "add_variables encode_attr encoding vars metadata = Inr metadata' \<Longrightarrow>
   var \<notin> fst ` set vars \<Longrightarrow>
     metadata' (meta_path var array_meta_key) = metadata (meta_path var array_meta_key)"
proof (induction vars arbitrary: metadata)
  case Nil
  then show ?case by simp
next
  case (Cons item vars)
  obtain key da where item: "item = (key, da)" by (cases item)
  with Cons.prems obtain meta where
    meta: "extract_zarray da (dict_get (encoding key) empty_encoding) = Inr meta"
    and rest: "add_variables encode_attr encoding vars
        (metadata(meta_path key attrs_key \<mapsto> ZAttrs (extract_zattrs encode_attr da),
                  meta_path key array_meta_key \<mapsto> ZArray meta)) = Inr metadata'"
    by (auto simp: Let_def split: sum.splits)
  from Cons.prems item have "var \<noteq> key" "var \<notin> fst ` set vars" by auto
  with Cons.IH [OF rest] show ?case
    by (simp add: meta_path_array_attrs meta_path_inject)
qed

lemma add_variables_foreign:
  "add_variables encode_attr encoding vars metadata = Inr metadata' \<Longrightarrow>
   \<forall>key \<in> fst ` set vars. p \<noteq> meta_path key attrs_key \<and> p \<noteq> meta_path key array_meta_key \<Longrightarrow>
     metadata' p = metadata p"
proof (induction vars arbitrary: metadata)
  case Nil
  then show ?case by simp
next
  case (Cons item vars)
  obtain key da where item: "item = (key, da)" by (cases item)
  with Cons.prems obtain meta where
    meta: "extract_zarray da (dict_get (encoding key) empty_encoding) = Inr meta"
    and rest: "add_variables encode_attr encoding vars
        (metadata(meta_path key attrs_key \<mapsto> ZAttrs (extract_zattrs encode_attr da),
                  meta_path key array_meta_key \<mapsto> ZArray meta)) = Inr metadata'"
    by (auto simp: Let_def split: sum.splits)
  from Cons.prems item have "p \<noteq> meta_path key attrs_key" "p \<noteq> meta_path key array_meta_key"
    "\<forall>key \<in> fst ` set vars. p \<noteq> meta_path key attrs_key \<and> p \<noteq> meta_path key array_meta_key"
    by auto
  with Cons.IH [OF rest] show ?case
    by simp
qed

lemma add_variables_present:
  "add_variables encode_attr encoding vars metadata = Inr metadata' \<Longrightarrow>
   distinct (map fst vars) \<Longrightarrow> (key, da) \<in> set vars \<Longrightarrow>
     (\<exists>meta. extract_zarray da (dict_get (encoding key) empty_encoding) = Inr meta \<and>
        metadata' (meta_path key array_meta_key) = Some (ZArray meta)) \<and>
     metadata' (meta_path key attrs_key) = Some (ZAttrs (extract_zattrs encode_attr da))"
proof (induction vars arbitrary: metadata)
  case Nil
  then show ?case by simp
next
  case (Cons item vars)
  obtain key' da' where item: "item = (key', da')" by (cases item)
  with Cons.prems obtain meta where
    meta: "extract_zarray da' (dict_get (encoding key') empty_encoding) = Inr meta"
    and rest: "add_variables encode_attr encoding vars
        (metadata(meta_path key' attrs_key \<mapsto> ZAttrs (extract_zattrs encode_attr da'),
                  meta_path key' array_meta_key \<mapsto> ZArray meta)) = Inr metadata'"
    by (auto simp: Let_def split: sum.splits)
  show ?case
  proof (cases "(key, da) = item")
    case True
    with Cons.prems item have fresh: "key \<notin> fst ` set vars" by auto
    then have "\<forall>k \<in> fst ` set vars. meta_path key attrs_key \<noteq> meta_path k attrs_key \<and>
        meta_path key attrs_key \<noteq> meta_path k array_meta_key"
      using meta_path_array_attrs [of _ key] by (auto simp: meta_path_inject) metis
    from add_variables_foreign [OF rest this] add_variables_absent [OF rest fresh] True item meta
    show ?thesis
      by (simp add: meta_path_attrs_array)
  next
    case False
    with Cons.prems item have "distinct (map fst vars)" "(key, da) \<in> set vars" by auto
    with Cons.IH [OF rest] show ?thesis by simp
  qed
qed

lemma get_zmetadata_loop:
  "get_zmetadata encode_attr obj encoding = Inr zmeta \<Longrightarrow>
     add_variables encode_attr encoding (ds_variables obj)
       [attrs_key \<mapsto> ZAttrs (get_zattrs encode_attr obj),
        group_meta_key \<mapsto> ZGroup get_zgroup] = Inr (zm_metadata zmeta)"
  by (auto simp: get_zmetadata_def split: sum.splits)

lemma init_fields:
  assumes "init ext obj name encoding = Inr self"
  shows "self_obj self = obj"
    and "get_zmetadata (encode_zarr_attr_value ext) obj
           (case encoding of Some e \<Rightarrow> e | None \<Rightarrow> Map.empty) = Inr (self_metadata self)"
  using assms by (auto simp: init_def Let_def split: sum.splits)

lemma example_init: "init example_ext example_dataset None None = Inr example_accessor"
  by (simp add: init_def get_zmetadata_def example_ext_def example_dataset_def
      example_accessor_def example_metadata_def example_zarray_def example_variable_def
      extract_zarray_def extract_zattrs_def dict_get_def empty_encoding_def Let_def
      get_zattrs_def get_zgroup_def zarr_format_def zarr_consolidated_format_def
      normalize_shape_def)

text \<open>
  C6, as the claim states it, does not hold: an override of the chunks is copied into the
  record as it is. The dataset of the example, registered with the chunks \<open>[2]\<close> for its
  variable of shape \<open>[4, 4]\<close>, gets a metadata document, and there the record of the
  variable has one chunk size for two dimensions.
\<close>

theorem get_zmetadata_counterexample:
  "get_zmetadata id example_dataset example_override =
     Inr (example_metadata (example_zarray\<lparr>meta_chunks := [2]\<rparr>)) \<and>
   meta_shape (example_zarray\<lparr>meta_chunks := [2]\<rparr>) = [4, 4] \<and>
   meta_chunks (example_zarray\<lparr>meta_chunks := [2]\<rparr>) = [2] \<and>
   length (meta_shape (example_zarray\<lparr>meta_chunks := [2]\<rparr>)) \<noteq>
     length (meta_chunks (example_zarray\<lparr>meta_chunks := [2]\<rparr>))"
  by (simp add: get_zmetadata_def example_dataset_def example_override_def
      example_metadata_def example_zarray_def example_variable_def
      extract_zarray_def extract_zattrs_def dict_get_def empty_encoding_def Let_def
      get_zattrs_def get_zgroup_def zarr_format_def zarr_consolidated_format_def
      normalize_shape_def)

text \<open>
  C6, amended: when the metadata document is built, the record of every variable without
  an override of the chunks has as many chunk sizes as the variable has dimension names,
  and as many extents in its shape; the dimension names are those of the attributes
  record. This rests on what xarray guarantees of a variable: one extent for each
  dimension name and, with native chunking, one tuple of blocks for each dimension. With
  an override of the chunks the record holds the override, whatever its length, and the
  construction does not fail for it.
\<close>

theorem get_zmetadata_lengths:
  assumes "get_zmetadata encode_attr obj encoding = Inr zmeta"
    and "distinct (map fst (ds_variables obj))"
    and "(key, da) \<in> set (ds_variables obj)"
    and "length (da_shape da) = length (da_dims da)"
    and "\<forall>blocks. da_chunks da = Some blocks \<longrightarrow> length blocks = length (da_shape da)"
  shows "\<exists>meta zattrs.
           zm_metadata zmeta (meta_path key array_meta_key) = Some (ZArray meta) \<and>
           zm_metadata zmeta (meta_path key attrs_key) = Some (ZAttrs zattrs) \<and>
           zattrs DIMENSION_KEY = Some (PList (map PStr (da_dims da))) \<and>
           length (meta_shape meta) = length (da_dims da) \<and>
           (case enc_chunks (dict_get (encoding key) empty_encoding) of
              None \<Rightarrow> length (meta_chunks meta) = length (da_dims da)
            | Some chunks \<Rightarrow> meta_chunks meta = chunks)"
proof -
  from add_variables_present [OF get_zmetadata_loop [OF assms(1)] assms(2) assms(3)]
  obtain meta where
    meta: "extract_zarray da (dict_get (encoding key) empty_encoding) = Inr meta"
    and arr: "zm_metadata zmeta (meta_path key array_meta_key) = Some (ZArray meta)"
    and att: "zm_metadata zmeta (meta_path key attrs_key) =
                Some (ZAttrs (extract_zattrs encode_attr da))"
    by blast
  have dims: "extract_zattrs encode_attr da DIMENSION_KEY = Some (PList (map PStr (da_dims da)))"
    by (simp add: extract_zattrs_def)
  from extract_zarray_lengths [OF meta assms(5)] assms(4) arr att dims show ?thesis
    by (auto split: option.splits)
qed

theorem get_zmetadata_lengths_witness:
  "get_zmetadata id example_dataset Map.empty = Inr (example_metadata example_zarray) \<and>
   (''temp'', example_variable) \<in> set (ds_variables example_dataset) \<and>
   length (meta_shape example_zarray) = length (da_dims example_variable) \<and>
   length (meta_chunks example_zarray) = length (da_dims example_variable)"
proof -
  have built: "get_zmetadata id example_dataset Map.empty =
      Inr (example_metadata example_zarray)"
    using init_fields(2) [OF example_init]
    by (simp add: example_ext_def example_accessor_def)
  have d: "distinct (map fst (ds_variables example_dataset))"
    by (simp add: example_dataset_def)
  have m: "(''temp'', example_variable) \<in> set (ds_variables example_dataset)"
    by (simp add: example_dataset_def)
  have l: "length (da_shape example_variable) = length (da_dims example_variable)"
    by (simp add: example_variable_def)
  have c: "\<forall>blocks. da_chunks example_variable = Some blocks \<longrightarrow>
      length blocks = length (da_shape example_variable)"
    by (simp add: example_variable_def)
  from get_zmetadata_lengths [OF built d m l c]
  have "length (meta_shape example_zarray) = length (da_dims example_variable) \<and>
      length (meta_chunks example_zarray) = length (da_dims example_variable)"
    by (auto simp: example_metadata_def dict_get_def empty_encoding_def)
  with built m show ?thesis
    by blast
qed

text \<open>
  C7: the metadata document is built in \<^verbatim>\<open>__init__\<close> and stored in the accessor. No
  route changes the accessor, so after any sequence of requests the route
  \<^verbatim>\<open>/.zmetadata\<close> returns the document that \<^verbatim>\<open>__init__\<close> stored.
\<close>

lemma handle_self: "snd (handle ext self req) = self"
  by (cases req) (auto simp: handle_def split: sum.splits)

lemma serve_all_self: "snd (serve_all ext self reqs) = self"
proof (induction reqs arbitrary: self)
  case Nil
  then show ?case by simp
next
  case (Cons req reqs)
  from handle_self [of ext self req] Cons [of self] show ?case
    by (auto split: prod.splits)
qed

theorem zmetadata_stable:
  assumes "init ext obj name encoding = Inr self"
  shows "get_zmetadata (encode_zarr_attr_value ext) obj
           (case encoding of Some e \<Rightarrow> e | None \<Rightarrow> Map.empty) = Inr (self_metadata self) \<and>
         (\<forall>reqs. self_metadata (snd (serve_all ext self reqs)) = self_metadata self \<and>
            fst (handle ext (snd (serve_all ext self reqs)) GetZmetadata) =
              ZmetadataResponse (self_metadata self))"
  using init_fields(2) [OF assms] by (simp add: serve_all_self handle_def)

theorem zmetadata_stable_witness:
  "init example_ext example_dataset None None = Inr example_accessor \<and>
   get_zmetadata id example_dataset Map.empty = Inr (example_metadata example_zarray) \<and>
   fst (handle example_ext
      (snd (serve_all example_ext example_accessor [GetZmetadata, GetKey ''temp'' ''0.0'', ListKeys]))
      GetZmetadata) = ZmetadataResponse (example_metadata example_zarray)"
proof -
  have meta: "self_metadata example_accessor = example_metadata example_zarray"
    by (simp add: example_accessor_def)
  have enc: "encode_zarr_attr_value example_ext = id"
    by (simp add: example_ext_def)
  from zmetadata_stable [OF example_init] meta enc example_init show ?thesis
    by (simp del: serve_all.simps)
qed

text \<open>
  C8, as the claim states it, does not hold: for a name that is not among the variables
  the route fails, but not always with \<^verbatim>\<open>KeyError\<close>. The lookup of \<^verbatim>\<open>temp.foo\<close> in the
  example dataset ends inside xarray with \<^verbatim>\<open>AttributeError\<close>, and that is what leaves
  the route.
\<close>

theorem get_key_counterexample:
  "init example_ext example_dataset None None = Inr example_accessor \<and>
   ''temp.foo'' \<notin> fst ` set (ds_variables example_dataset) \<and>
   get_key example_ext example_accessor ''temp.foo'' ''0.0'' = Inl AttributeError"
proof -
  have "map_of (ds_variables example_dataset) ''temp.foo'' = None"
    by (simp add: example_dataset_def)
  moreover have "virtual_variable example_ext example_dataset ''temp.foo'' = Inl AttributeError"
    by (simp add: example_ext_def)
  ultimately have "get_key example_ext example_accessor ''temp.foo'' ''0.0'' = Inl AttributeError"
    by (simp add: get_key_def dataset_getitem_def example_accessor_def)
  with example_init show ?thesis
    by (simp add: example_dataset_def)
qed

text \<open>
  C8, amended: for a name that is not among the variables of the dataset, the route
  \<^verbatim>\<open>/{var}/{chunk}\<close> fails, whatever the chunk string is and whatever the array engine
  would do: with the exception that the lookup \<^verbatim>\<open>self._obj[var]\<close> raises, or, where
  xarray builds a variable for the name, with the \<^verbatim>\<open>KeyError\<close> of the lookup in the
  metadata document, which has array records for the variables only. Both come before
  \<^verbatim>\<open>get_indexers\<close> and before the slicing.
\<close>

theorem get_key_unknown_variable:
  assumes "init ext obj name encoding = Inr self"
    and "var \<notin> fst ` set (ds_variables obj)"
  shows "get_key ext self var chunk =
           (case virtual_variable ext obj var of
              Inl e \<Rightarrow> Inl e
            | Inr da \<Rightarrow> Inl KeyError) \<and>
         (\<exists>e. get_key ext self var chunk = Inl e) \<and>
         (\<exists>e. fst (handle ext self (GetKey var chunk)) = Raised e)"
proof -
  note obj = init_fields(1) [OF assms(1)]
  from add_variables_absent [OF get_zmetadata_loop [OF init_fields(2) [OF assms(1)]] assms(2)]
  have absent: "zm_metadata (self_metadata self) (meta_path var array_meta_key) = None"
    by (simp add: meta_path_not_top)
  from assms(2) have "map_of (ds_variables obj) var = None"
    by (simp add: map_of_eq_None_iff)
  with absent obj have result: "get_key ext self var chunk =
      (case virtual_variable ext obj var of Inl e \<Rightarrow> Inl e | Inr da \<Rightarrow> Inl KeyError)"
    by (simp add: get_key_def dataset_getitem_def split: sum.splits)
  then have fails: "\<exists>e. get_key ext self var chunk = Inl e"
    by (simp split: sum.splits)
  then have "\<exists>e. fst (handle ext self (GetKey var chunk)) = Raised e"
    by (auto simp: handle_def)
  with result fails show ?thesis
    by blast
qed

theorem get_key_unknown_variable_witness:
  "init example_ext example_dataset None None = Inr example_accessor \<and>
   ''nonexistent'' \<notin> fst ` set (ds_variables example_dataset) \<and>
   ''y'' \<notin> fst ` set (ds_variables example_dataset) \<and>
   get_key example_ext example_accessor ''nonexistent'' ''a.b'' = Inl KeyError \<and>
   get_key example_ext example_accessor ''y'' ''0'' = Inl KeyError"
proof -
  have a: "''nonexistent'' \<notin> fst ` set (ds_variables example_dataset)"
    by (simp add: example_dataset_def)
  have b: "''y'' \<notin> fst ` set (ds_variables example_dataset)"
    by (simp add: example_dataset_def)
  have va: "virtual_variable example_ext example_dataset ''nonexistent'' = Inl KeyError"
    by (simp add: example_ext_def)
  have vb: "virtual_variable example_ext example_dataset ''y'' = Inr example_variable"
    by (simp add: example_ext_def)
  from get_key_unknown_variable [OF example_init a, of "''a.b''"] va
  have 1: "get_key example_ext example_accessor ''nonexistent'' ''a.b'' = Inl KeyError"
    by simp
  from get_key_unknown_variable [OF example_init b, of "''0''"] vb
  have 2: "get_key example_ext example_accessor ''y'' ''0'' = Inl KeyError"
    by simp
  from example_init a b 1 2 show ?thesis
    by blast
qed

end
